theory Spec2Isabelle
  imports Main "HOL-Library.Word"
begin

unbundle bit_operations_syntax

section \<open>Display detection script: values, text and exceptions\<close>

text \<open>
  The script \<^verbatim>\<open>detect_displays.py\<close> enumerates the attached displays through
  \<^verbatim>\<open>win32api\<close>, derives a short identifier from each device id and prints a report.

  Text is a \<^typ>\<open>string\<close> holding the UTF-8 encoding of the Python \<^verbatim>\<open>str\<close>: the
  script only concatenates text, pads ASCII text, renders integers and splits at the
  ASCII separators \<^verbatim>\<open>#\<close> and \<^verbatim>\<open>\\<close>, and all of these act on the encoded
  text as they do on the code points. Python integers are \<^typ>\<open>int\<close>.

  The model starts where the imports of \<^verbatim>\<open>win32api\<close> and \<^verbatim>\<open>win32con\<close> have succeeded,
  and \<^verbatim>\<open>print\<close> is taken to succeed. The calls into the platform are the only
  operations that may end in an exception from outside, a \<^verbatim>\<open>KeyboardInterrupt\<close> among them.
\<close>

datatype exn =
    KeyboardInterrupt
  | SystemExit int
  | Exception string

text \<open>
  \<^term>\<open>Exception msg\<close> stands for an instance \<^verbatim>\<open>e\<close> of any subclass of Python's
  \<^verbatim>\<open>Exception\<close> (AttributeError, TypeError, IndexError, pywintypes.error, ...) with
  \<^verbatim>\<open>str(e) = msg\<close>. \<^term>\<open>KeyboardInterrupt\<close> and \<^term>\<open>SystemExit\<close> derive from
  \<^verbatim>\<open>BaseException\<close> only: a bare \<^verbatim>\<open>except:\<close> catches them, \<^verbatim>\<open>except Exception\<close> does not.
\<close>

datatype pyval =
    PyNone
  | PyBool bool
  | PyInt int
  | PyStr string
  | PyBytes string
  | PyList "pyval list"

definition backslash :: char where
  "backslash = CHR 0x5C"

definition apostrophe :: char where
  "apostrophe = CHR 0x27"

definition newline :: char where
  "newline = CHR 0x0A"

subsection \<open>The string methods the script calls\<close>

text \<open>
  \<^verbatim>\<open>s.split(sep)\<close> for a one-character separator: a left-to-right scan that closes the
  current part at every separator, so the result always has one part more than there are
  separators (and \<^verbatim>\<open>''.split('#') == ['']\<close>).
\<close>

fun split_scan :: "char \<Rightarrow> string \<Rightarrow> string \<Rightarrow> string list" where
  "split_scan sep cur [] = [cur]"
| "split_scan sep cur (c # cs) =
     (if c = sep then cur # split_scan sep [] cs else split_scan sep (cur @ [c]) cs)"

definition str_split :: "char \<Rightarrow> string \<Rightarrow> string list" where
  "str_split sep s = split_scan sep [] s"

text \<open>\<^verbatim>\<open>sep.join(parts)\<close>, used only to state what \<^const>\<open>str_split\<close> computes.\<close>

fun str_join :: "char \<Rightarrow> string list \<Rightarrow> string" where
  "str_join sep [] = []"
| "str_join sep [p] = p"
| "str_join sep (p # q # ps) = p @ sep # str_join sep (q # ps)"

fun type_name :: "pyval \<Rightarrow> string" where
  "type_name PyNone = ''NoneType''"
| "type_name (PyBool b) = ''bool''"
| "type_name (PyInt i) = ''int''"
| "type_name (PyStr s) = ''str''"
| "type_name (PyBytes b) = ''bytes''"
| "type_name (PyList xs) = ''list''"

text \<open>
  \<^verbatim>\<open>v.split(sep)\<close> with a \<^verbatim>\<open>str\<close> separator on an arbitrary value: only \<^verbatim>\<open>str\<close> and
  \<^verbatim>\<open>bytes\<close> have the method, and \<^verbatim>\<open>bytes.split\<close> rejects a \<^verbatim>\<open>str\<close> separator.
\<close>

fun method_split :: "pyval \<Rightarrow> char \<Rightarrow> exn + string list" where
  "method_split (PyStr s) sep = Inr (str_split sep s)"
| "method_split (PyBytes b) sep =
     Inl (Exception (''a bytes-like object is required, not 'str'' @ [apostrophe]))"
| "method_split v sep =
     Inl (Exception ([apostrophe] @ type_name v @ [apostrophe] @
       '' object has no attribute 'split'' @ [apostrophe]))"

text \<open>\<^verbatim>\<open>xs[i]\<close> for \<^verbatim>\<open>i >= 0\<close> and \<^verbatim>\<open>xs[-1]\<close>: out of range raises IndexError.\<close>

definition item :: "'a list \<Rightarrow> nat \<Rightarrow> exn + 'a" where
  "item xs i = (if i < length xs then Inr (xs ! i) else Inl (Exception ''list index out of range''))"

definition last_item :: "'a list \<Rightarrow> exn + 'a" where
  "last_item xs = (if xs = [] then Inl (Exception ''list index out of range'') else Inr (last xs))"

subsection \<open>\<^verbatim>\<open>extract_display_id\<close>\<close>

text \<open>The body of the \<^verbatim>\<open>try\<close> block: every operation that can raise is a branch.\<close>

definition extract_display_id_try :: "pyval \<Rightarrow> exn + string" where
  "extract_display_id_try device_id =
     (case method_split device_id CHR ''#'' of
        Inl e \<Rightarrow> Inl e
      | Inr parts \<Rightarrow>
          if length parts \<ge> 3 then
            (case item parts 1 of
               Inl e \<Rightarrow> Inl e
             | Inr p1 \<Rightarrow>
                 (case item parts 2 of
                    Inl e \<Rightarrow> Inl e
                  | Inr p2 \<Rightarrow> Inr (p1 @ ''_'' @ p2)))
          else
            (case method_split device_id backslash of
               Inl e \<Rightarrow> Inl e
             | Inr segments \<Rightarrow> last_item segments))"

text \<open>The bare \<^verbatim>\<open>except:\<close> turns whatever the body raises into \<^verbatim>\<open>"UNKNOWN"\<close>.\<close>

definition extract_display_id :: "pyval \<Rightarrow> string" where
  "extract_display_id device_id =
     (case extract_display_id_try device_id of
        Inr simple_id \<Rightarrow> simple_id
      | Inl e \<Rightarrow> ''UNKNOWN'')"

subsection \<open>Formatting and printing\<close>

text \<open>\<^verbatim>\<open>str(i)\<close> for an integer, as an f-string field renders it.\<close>

fun digits :: "nat \<Rightarrow> string" where
  "digits n =
     (if n < 10 then [''0123456789'' ! n]
      else digits (n div 10) @ [''0123456789'' ! (n mod 10)])"

declare digits.simps [simp del]

definition str_int :: "int \<Rightarrow> string" where
  "str_int i = (if i < 0 then ''-'' @ digits (nat (- i)) else digits (nat i))"

text \<open>The number a decimal numeral denotes, used only to state what \<^const>\<open>digits\<close> computes.\<close>

definition decimal_value :: "string \<Rightarrow> nat" where
  "decimal_value s = foldl (\<lambda>acc c. 10 * acc + (of_char c - 48)) 0 s"

text \<open>The format specification \<^verbatim>\<open>:<70\<close>: left-aligned, padded with spaces.\<close>

definition ljust :: "nat \<Rightarrow> string \<Rightarrow> string" where
  "ljust w s = s @ replicate (w - length s) CHR '' ''"

text \<open>\<^verbatim>\<open>s * n\<close> for a string.\<close>

definition repeat :: "string \<Rightarrow> nat \<Rightarrow> string" where
  "repeat s n = concat (replicate n s)"

text \<open>
  Standard output is the text written so far; \<^verbatim>\<open>print(s)\<close> appends \<^verbatim>\<open>s\<close> and a
  newline. A statement sequence is the list of its actions, run first to last, and a
  \<^verbatim>\<open>for\<close> loop runs its body for each element in order.
\<close>

type_synonym action = "string \<Rightarrow> string"

definition print :: "string \<Rightarrow> action" where
  "print s out = out @ s @ [newline]"

definition do_all :: "action list \<Rightarrow> action" where
  "do_all acts out = fold (\<lambda>act. act) acts out"

definition for_each :: "'a list \<Rightarrow> ('a \<Rightarrow> action) \<Rightarrow> action" where
  "for_each xs body out = fold body xs out"

text \<open>The non-ASCII characters of the script, in UTF-8.\<close>

definition degree_sign :: string where
  "degree_sign = [CHR 0xC2, CHR 0xB0]"

definition box_top_left :: string where
  "box_top_left = [CHR 0xE2, CHR 0x94, CHR 0x8C]"

definition box_horizontal :: string where
  "box_horizontal = [CHR 0xE2, CHR 0x94, CHR 0x80]"

definition box_top_right :: string where
  "box_top_right = [CHR 0xE2, CHR 0x94, CHR 0x90]"

definition box_vertical :: string where
  "box_vertical = [CHR 0xE2, CHR 0x94, CHR 0x82]"

definition box_bottom_left :: string where
  "box_bottom_left = [CHR 0xE2, CHR 0x94, CHR 0x94]"

definition box_bottom_right :: string where
  "box_bottom_right = [CHR 0xE2, CHR 0x94, CHR 0x98]"

definition emoji_desktop :: string where
  "emoji_desktop = [CHR 0xF0, CHR 0x9F, CHR 0x96, CHR 0xA5, CHR 0xEF, CHR 0xB8, CHR 0x8F]"

definition emoji_cross :: string where
  "emoji_cross = [CHR 0xE2, CHR 0x9D, CHR 0x8C]"

definition emoji_check :: string where
  "emoji_check = [CHR 0xE2, CHR 0x9C, CHR 0x85]"

definition emoji_bulb :: string where
  "emoji_bulb = [CHR 0xF0, CHR 0x9F, CHR 0x92, CHR 0xA1]"

subsection \<open>\<^verbatim>\<open>extract_display_id\<close> on values with a \<^verbatim>\<open>split\<close> method of their own\<close>

text \<open>
  Nothing restricts the argument to the built-in values above. An object of a user class
  may bring its own \<^verbatim>\<open>split\<close>: here one that, given the separator, raises or returns a
  list of simple values. On the built-in values the method is the one above, whose parts
  are strings.
\<close>

datatype element =
    ENone
  | EBool bool
  | EInt int
  | EStr string

datatype argument =
    Value pyval
  | Object "char \<Rightarrow> exn + element list"

fun split_any :: "argument \<Rightarrow> char \<Rightarrow> exn + element list" where
  "split_any (Value v) sep =
     (case method_split v sep of Inl e \<Rightarrow> Inl e | Inr parts \<Rightarrow> Inr (map EStr parts))"
| "split_any (Object split) sep = split sep"

text \<open>A replacement field \<^verbatim>\<open>{x}\<close> of an f-string: \<^verbatim>\<open>str(x)\<close> for these values.\<close>

fun format_field :: "element \<Rightarrow> string" where
  "format_field ENone = ''None''"
| "format_field (EBool b) = (if b then ''True'' else ''False'')"
| "format_field (EInt i) = str_int i"
| "format_field (EStr s) = s"

text \<open>
  The function once more, line by line, for any argument: the first \<^verbatim>\<open>return\<close> gives the
  f-string, the second gives the last element as it is, and the bare \<^verbatim>\<open>except:\<close> gives
  \<^verbatim>\<open>"UNKNOWN"\<close>.
\<close>

definition extract_display_id_any_try :: "argument \<Rightarrow> exn + element" where
  "extract_display_id_any_try device_id =
     (case split_any device_id CHR ''#'' of
        Inl e \<Rightarrow> Inl e
      | Inr parts \<Rightarrow>
          if length parts \<ge> 3 then
            (case item parts 1 of
               Inl e \<Rightarrow> Inl e
             | Inr p1 \<Rightarrow>
                 (case item parts 2 of
                    Inl e \<Rightarrow> Inl e
                  | Inr p2 \<Rightarrow> Inr (EStr (format_field p1 @ ''_'' @ format_field p2))))
          else
            (case split_any device_id backslash of
               Inl e \<Rightarrow> Inl e
             | Inr segments \<Rightarrow> last_item segments))"

definition extract_display_id_any :: "argument \<Rightarrow> element" where
  "extract_display_id_any device_id =
     (case extract_display_id_any_try device_id of
        Inr result \<Rightarrow> result
      | Inl e \<Rightarrow> EStr ''UNKNOWN'')"

text \<open>
  Objects for the examples: one whose \<^verbatim>\<open>split\<close> returns \<^verbatim>\<open>[1]\<close>, one whose \<^verbatim>\<open>split\<close>
  returns \<^verbatim>\<open>[1, 2, None]\<close>, and one whose \<^verbatim>\<open>split\<close> raises.
\<close>

definition object_split_one :: argument where
  "object_split_one = Object (\<lambda>sep. Inr [EInt 1])"

definition object_split_three :: argument where
  "object_split_three = Object (\<lambda>sep. Inr [EInt 1, EInt 2, ENone])"

definition object_split_raises :: argument where
  "object_split_raises = Object (\<lambda>sep. Inl (Exception ''split failed''))"

section \<open>The display records and the report\<close>

text \<open>The dictionary \<^verbatim>\<open>display_info\<close> that \<^verbatim>\<open>get_display_info\<close> builds for each display.\<close>

record display =
  index :: int
  device_name :: string
  device_string :: string
  device_id :: string
  device_key :: string
  width :: int
  height :: int
  position_x :: int
  position_y :: int
  frequency :: int
  bits_per_pixel :: int
  orientation :: int
  is_primary :: bool
  state_flags :: int

subsection \<open>\<^verbatim>\<open>get_orientation_name\<close>\<close>

definition orientations :: "(int \<times> string) list" where
  "orientations =
     [(0, ''Landscape (0'' @ degree_sign @ '')''),
      (1, ''Portrait (90'' @ degree_sign @ '')''),
      (2, ''Landscape Flipped (180'' @ degree_sign @ '')''),
      (3, ''Portrait Flipped (270'' @ degree_sign @ '')'')]"

definition get_orientation_name :: "int \<Rightarrow> string" where
  "get_orientation_name code =
     (case map_of orientations code of
        Some name \<Rightarrow> name
      | None \<Rightarrow> ''Unknown ('' @ str_int code @ degree_sign @ '')'')"

subsection \<open>The classification by geometry\<close>

text \<open>
  The conditional expression that \<^verbatim>\<open>print_display_report\<close> binds to \<^verbatim>\<open>orientation\<close>
  in its first loop, and its lower-case twin of the second and third loops.
\<close>

definition classify_orientation :: "int \<Rightarrow> int \<Rightarrow> string" where
  "classify_orientation w h =
     (if w > h then ''Landscape'' else if w < h then ''Portrait'' else ''Square'')"

definition classify_orientation_lower :: "int \<Rightarrow> int \<Rightarrow> string" where
  "classify_orientation_lower w h =
     (if w > h then ''landscape'' else if w < h then ''portrait'' else ''square'')"

subsection \<open>\<^verbatim>\<open>print_display_report\<close>\<close>

definition rule80 :: string where
  "rule80 = repeat ''='' 80"

text \<open>The header and the display count.\<close>

definition report_header :: "display list \<Rightarrow> action" where
  "report_header displays = do_all
     [print ([newline] @ rule80),
      print (repeat '' '' 25 @ ''DISPLAY DETECTION REPORT''),
      print (rule80 @ [newline]),
      print (''Total Displays Found: '' @ str_int (int (length displays)) @ [newline])]"

text \<open>The body of the first loop: the detail block of one display.\<close>

definition detail_block :: "display \<Rightarrow> action" where
  "detail_block display =
     (let primary_text = (if is_primary display then '' (PRIMARY)'' else []);
          orientation_text = classify_orientation (width display) (height display);
          simple_id = extract_display_id (PyStr (device_id display))
      in do_all
        [print (box_top_left @ repeat box_horizontal 78 @ box_top_right),
         print (box_vertical @ '' Display '' @ str_int (index display) @
                ljust 70 primary_text @ box_vertical),
         print (box_bottom_left @ repeat box_horizontal 78 @ box_bottom_right),
         print (''  Monitor Name:       '' @ device_string display),
         print (''  Device Name:        '' @ device_name display),
         print (''  Simple ID:          '' @ simple_id),
         print (''  Resolution:         '' @ str_int (width display) @ ''x'' @
                str_int (height display)),
         print (''  Orientation:        '' @ orientation_text @ '' ('' @
                get_orientation_name (orientation display) @ '')''),
         print (''  Position:           x:'' @ str_int (position_x display) @ '', y:'' @
                str_int (position_y display)),
         print (''  Refresh Rate:       '' @ str_int (frequency display) @ '' Hz''),
         print (''  Color Depth:        '' @ str_int (bits_per_pixel display) @ ''-bit''),
         print (''  Primary Display:    '' @ (if is_primary display then ''Yes'' else ''No'')),
         print ([newline] @ ''  Full Device ID:''),
         print (''    '' @ device_id display),
         print ([newline] @ ''  Registry Key:''),
         print (''    '' @ device_key display),
         print []])"

text \<open>The body of the second loop: the folder suggestions for one display.\<close>

definition folder_entry :: "display \<Rightarrow> action" where
  "folder_entry display =
     (let simple_id = extract_display_id (PyStr (device_id display));
          orientation_text = classify_orientation_lower (width display) (height display)
      in do_all
        [print (''Display '' @ str_int (index display) @ '': '' @ device_string display @
                '' ('' @ str_int (width display) @ ''x'' @ str_int (height display) @ '' '' @
                orientation_text @ '')''),
         print (''  C:'' @ [backslash] @ simple_id @ ''_default'' @ [backslash] @ ''video.mp4''),
         print (''  C:'' @ [backslash] @ simple_id @ ''_trigger'' @ [backslash] @ ''video.mp4''),
         print []])"

definition folder_suggestions :: "display list \<Rightarrow> action" where
  "folder_suggestions displays = do_all
     [print rule80,
      print (repeat '' '' 25 @ ''FOLDER NAME SUGGESTIONS''),
      print (rule80 @ [newline]),
      print (''Create these folders in C:'' @ [backslash] @ '' for your videos:'' @ [newline]),
      for_each displays folder_entry]"

text \<open>The body of the third loop: one entry of the configuration for main.js.\<close>

definition config_entry :: "display \<Rightarrow> action" where
  "config_entry display =
     (let simple_id = extract_display_id (PyStr (device_id display));
          orientation_text = classify_orientation_lower (width display) (height display)
      in do_all
        [print (''  // '' @ device_string display @ '' ('' @ str_int (width display) @ ''x'' @
                str_int (height display) @ '' '' @ orientation_text @ '')''),
         print (''  '' @ [apostrophe] @ simple_id @ [apostrophe] @ '': 'your_custom_name',''),
         print []])"

definition main_js_configuration :: "display list \<Rightarrow> action" where
  "main_js_configuration displays = do_all
     [print rule80,
      print (repeat '' '' 22 @ ''CONFIGURATION FOR main.js''),
      print (rule80 @ [newline]),
      print (''Add this to DISPLAY_VIDEO_CONFIG in main.js:'' @ [newline]),
      print ''const DISPLAY_VIDEO_CONFIG = {'',
      for_each displays config_entry,
      print (''};'' @ [newline])]"

text \<open>The four alternative identification methods; each loop prints one keyed entry.\<close>

definition keyed_entry :: "string \<Rightarrow> action" where
  "keyed_entry k = print (''  '' @ [apostrophe] @ k @ [apostrophe] @ '': 'folder_name','')"

definition simple_id_key :: "display \<Rightarrow> string" where
  "simple_id_key display = extract_display_id (PyStr (device_id display))"

definition resolution_key :: "display \<Rightarrow> string" where
  "resolution_key display = str_int (width display) @ ''x'' @ str_int (height display)"

definition position_key :: "display \<Rightarrow> string" where
  "position_key display =
     ''x'' @ str_int (position_x display) @ ''_y'' @ str_int (position_y display)"

definition option1 :: "display list \<Rightarrow> action" where
  "option1 displays = do_all
     [print ''Option 1: By Simple ID (Extracted from Device ID)'',
      print ''const DISPLAY_VIDEO_CONFIG = {'',
      for_each displays (\<lambda>display. keyed_entry (simple_id_key display)),
      print (''};'' @ [newline])]"

definition option2 :: "display list \<Rightarrow> action" where
  "option2 displays = do_all
     [print ''Option 2: By Resolution'',
      print ''const DISPLAY_VIDEO_CONFIG = {'',
      for_each displays (\<lambda>display. keyed_entry (resolution_key display)),
      print (''};'' @ [newline])]"

definition option3 :: "display list \<Rightarrow> action" where
  "option3 displays = do_all
     [print ''Option 3: By Position'',
      print ''const DISPLAY_VIDEO_CONFIG = {'',
      for_each displays (\<lambda>display. keyed_entry (position_key display)),
      print (''};'' @ [newline])]"

definition option4 :: "display list \<Rightarrow> action" where
  "option4 displays = do_all
     [print ''Option 4: By Monitor Name (only if different)'',
      print ''const DISPLAY_VIDEO_CONFIG = {'',
      for_each displays (\<lambda>display. keyed_entry (device_string display)),
      print (''};'' @ [newline])]"

definition alternative_header :: action where
  "alternative_header = do_all
     [print rule80,
      print (repeat '' '' 20 @ ''ALTERNATIVE IDENTIFICATION METHODS''),
      print (rule80 @ [newline])]"

text \<open>The whole procedure, section after section as the source prints them.\<close>

definition print_display_report :: "display list \<Rightarrow> action" where
  "print_display_report displays = do_all
     [report_header displays,
      for_each displays detail_block,
      folder_suggestions displays,
      main_js_configuration displays,
      alternative_header,
      option1 displays,
      option2 displays,
      option3 displays,
      option4 displays,
      print (rule80 @ [newline])]"

section \<open>Enumeration, \<^verbatim>\<open>main\<close> and the top level\<close>

text \<open>
  What \<^verbatim>\<open>win32api.EnumDisplayDevices(None, n)\<close> returns (a \<^verbatim>\<open>PyDISPLAY_DEVICE\<close>) and what
  \<^verbatim>\<open>win32api.EnumDisplaySettings(name, ENUM_CURRENT_SETTINGS)\<close> returns (a \<^verbatim>\<open>PyDEVMODE\<close>),
  with the attributes the script reads.
\<close>

record device =
  DeviceName :: string
  DeviceString :: string
  DeviceID :: string
  DeviceKey :: string
  StateFlags :: int

record devmode =
  PelsWidth :: int
  PelsHeight :: int
  Position_x :: int
  Position_y :: int
  DisplayFrequency :: int
  BitsPerPel :: int
  DisplayOrientation :: int

text \<open>
  The platform is a parameter: the two calls of \<^verbatim>\<open>win32api\<close>, each of which returns or
  raises (\<^term>\<open>Inr None\<close> is a falsy return value), and the two flag constants of
  \<^verbatim>\<open>win32con\<close>, which are not part of the script.
\<close>

record win32 =
  EnumDisplayDevices :: "nat \<Rightarrow> exn + device option"
  EnumDisplaySettings :: "string \<Rightarrow> exn + devmode"
  DISPLAY_DEVICE_ATTACHED_TO_DESKTOP :: int
  DISPLAY_DEVICE_PRIMARY_DEVICE :: int

subsection \<open>\<^verbatim>\<open>get_display_info\<close>\<close>

definition display_info :: "win32 \<Rightarrow> nat \<Rightarrow> device \<Rightarrow> devmode \<Rightarrow> display" where
  "display_info os device_num dev settings =
     \<lparr> index = int device_num,
       device_name = DeviceName dev,
       device_string = DeviceString dev,
       device_id = DeviceID dev,
       device_key = DeviceKey dev,
       width = PelsWidth settings,
       height = PelsHeight settings,
       position_x = Position_x settings,
       position_y = Position_y settings,
       frequency = DisplayFrequency settings,
       bits_per_pixel = BitsPerPel settings,
       orientation = DisplayOrientation settings,
       is_primary = (StateFlags dev AND DISPLAY_DEVICE_PRIMARY_DEVICE os \<noteq> 0),
       state_flags = StateFlags dev \<rparr>"

text \<open>
  The \<^verbatim>\<open>while True\<close> loop, from \<^verbatim>\<open>device_num\<close> with the displays collected so far. It
  leaves through \<^verbatim>\<open>break\<close> when the device call returns nothing or raises anything (the
  outer bare \<^verbatim>\<open>except:\<close>); a failing settings call skips the device (the inner bare
  \<^verbatim>\<open>except: pass\<close>). A platform that has a device at every index keeps it running for
  ever: the result is then \<^term>\<open>None\<close>.
\<close>

partial_function (option) enumerate_from :: "win32 \<Rightarrow> nat \<Rightarrow> display list \<Rightarrow> display list option"
  where
  "enumerate_from os device_num displays =
     (case EnumDisplayDevices os device_num of
        Inl e \<Rightarrow> Some displays
      | Inr None \<Rightarrow> Some displays
      | Inr (Some dev) \<Rightarrow>
          if StateFlags dev AND DISPLAY_DEVICE_ATTACHED_TO_DESKTOP os \<noteq> 0 then
            (case EnumDisplaySettings os (DeviceName dev) of
               Inl e \<Rightarrow> enumerate_from os (device_num + 1) displays
             | Inr settings \<Rightarrow>
                 enumerate_from os (device_num + 1)
                   (displays @ [display_info os device_num dev settings]))
          else enumerate_from os (device_num + 1) displays)"

definition get_display_info :: "win32 \<Rightarrow> display list option" where
  "get_display_info os = enumerate_from os 0 []"

subsection \<open>\<^verbatim>\<open>main\<close>\<close>

text \<open>
  What a call of \<^verbatim>\<open>main\<close> did: the text on standard output, the exception it raised
  (\<^term>\<open>None\<close> when it returned), and the argument of every call of
  \<^verbatim>\<open>print_display_report\<close> it made.
\<close>

record run =
  printed :: string
  raised :: "exn option"
  report_calls :: "display list list"

text \<open>\<^verbatim>\<open>main\<close> from the point where \<^verbatim>\<open>get_display_info()\<close> has returned \<^verbatim>\<open>displays\<close>.\<close>

definition main_with :: "display list \<Rightarrow> run" where
  "main_with displays =
     (let out0 = print ([newline] @ emoji_desktop @ ''  Detecting connected displays...'') []
      in if displays = [] then
           \<lparr> printed = do_all
                 [print ([newline] @ emoji_cross @ '' ERROR: No displays detected!''),
                  print ''Make sure your monitors are connected and turned on.''] out0,
             raised = Some (SystemExit 1),
             report_calls = [] \<rparr>
         else
           \<lparr> printed = do_all
                 [print (emoji_check @ '' Found '' @ str_int (int (length displays)) @
                         '' display(s)''),
                  print_display_report displays,
                  print ''Detection complete!'',
                  print ([newline] @ emoji_bulb @
                         '' TIP: Use the Simple ID or Resolution for your folder names''),
                  print (''   The Simple ID is stable and unique for each monitor.'' @
                         [newline])] out0,
             raised = None,
             report_calls = [displays] \<rparr>)"

definition main :: "win32 \<Rightarrow> run option" where
  "main os = map_option main_with (get_display_info os)"

subsection \<open>The \<^verbatim>\<open>__main__\<close> block\<close>

record process =
  stdout :: string
  exit_status :: int

text \<open>
  The \<^verbatim>\<open>try\<close> statement around \<^verbatim>\<open>main()\<close>, applied to what the call did. \<^verbatim>\<open>SystemExit\<close>
  is not an \<^verbatim>\<open>Exception\<close>: it passes both handlers and ends the process with its code.
\<close>

definition top_level :: "run \<Rightarrow> process" where
  "top_level r =
     (case raised r of
        None \<Rightarrow> \<lparr> stdout = printed r, exit_status = 0 \<rparr>
      | Some KeyboardInterrupt \<Rightarrow>
          \<lparr> stdout = print ([newline, newline] @ ''Detection cancelled by user.'') (printed r),
            exit_status = 0 \<rparr>
      | Some (Exception msg) \<Rightarrow>
          \<lparr> stdout = do_all
                [print ([newline] @ emoji_cross @ '' ERROR: '' @ msg),
                 print ([newline] @ ''If you see import errors, install pywin32:''),
                 print ''  pip install pywin32''] (printed r),
            exit_status = 1 \<rparr>
      | Some (SystemExit code) \<Rightarrow> \<lparr> stdout = printed r, exit_status = code \<rparr>)"

definition script :: "win32 \<Rightarrow> process option" where
  "script os = map_option top_level (main os)"

subsection \<open>Predicates used to state the properties\<close>

text \<open>An action that only appends: what it writes does not depend on what is there.\<close>

definition appends :: "action \<Rightarrow> bool" where
  "appends act \<longleftrightarrow> (\<forall>out. act out = out @ act [])"

text \<open>Two display records that agree on every field but \<^verbatim>\<open>state_flags\<close>.\<close>

definition same_but_state_flags :: "display \<Rightarrow> display \<Rightarrow> bool" where
  "same_but_state_flags d d' \<longleftrightarrow>
     index d = index d' \<and> device_name d = device_name d' \<and>
     device_string d = device_string d' \<and> device_id d = device_id d' \<and>
     device_key d = device_key d' \<and> width d = width d' \<and> height d = height d' \<and>
     position_x d = position_x d' \<and> position_y d = position_y d' \<and>
     frequency d = frequency d' \<and> bits_per_pixel d = bits_per_pixel d' \<and>
     orientation d = orientation d' \<and> is_primary d = is_primary d'"

text \<open>
  Two display records for the examples: a primary 1920x1080 display at (0,0) and a
  secondary 1080x1920 display at (1920,0).
\<close>

definition primary_example :: display where
  "primary_example =
     \<lparr> index = 0, device_name = ''DISPLAY1'', device_string = ''Monitor A'',
       device_id = ''MONITOR#GSM5BBB#4&1a2b3c&0&UID123#{guid}'', device_key = ''Registry1'',
       width = 1920, height = 1080, position_x = 0, position_y = 0, frequency = 60,
       bits_per_pixel = 32, orientation = 0, is_primary = True, state_flags = 5 \<rparr>"

definition secondary_example :: display where
  "secondary_example =
     \<lparr> index = 1, device_name = ''DISPLAY2'', device_string = ''Monitor B'',
       device_id = ''MONITOR#DEL4321#5&9f8e7d&0&UID456#{guid}'', device_key = ''Registry2'',
       width = 1080, height = 1920, position_x = 1920, position_y = 0, frequency = 60,
       bits_per_pixel = 32, orientation = 1, is_primary = False, state_flags = 1 \<rparr>"

text \<open>
  Two platforms for the examples. On the first no device can be enumerated: the first
  device call fails as \<^verbatim>\<open>win32api\<close> does past the last device. On the second one display
  is attached, and the user presses Ctrl-C while the first device call runs, so that the
  call ends in \<^verbatim>\<open>KeyboardInterrupt\<close>.
\<close>

definition no_devices :: win32 where
  "no_devices =
     \<lparr> EnumDisplayDevices = (\<lambda>n. Inl (Exception ''EnumDisplayDevices failed'')),
       EnumDisplaySettings = (\<lambda>name. Inl (Exception ''EnumDisplaySettings failed'')),
       DISPLAY_DEVICE_ATTACHED_TO_DESKTOP = 1,
       DISPLAY_DEVICE_PRIMARY_DEVICE = 4 \<rparr>"

definition interrupted_enumeration :: win32 where
  "interrupted_enumeration =
     \<lparr> EnumDisplayDevices =
         (\<lambda>n. if n = 0 then Inl KeyboardInterrupt
              else if n = 1 then
                Inr (Some \<lparr> DeviceName = ''DISPLAY1'', DeviceString = ''Monitor A'',
                            DeviceID = ''MONITOR#GSM5BBB#4&1a2b3c&0&UID123#{guid}'',
                            DeviceKey = ''Registry1'', StateFlags = 5 \<rparr>)
              else Inl (Exception ''EnumDisplayDevices failed'')),
       EnumDisplaySettings =
         (\<lambda>name. Inr \<lparr> PelsWidth = 1920, PelsHeight = 1080, Position_x = 0, Position_y = 0,
                       DisplayFrequency = 60, BitsPerPel = 32, DisplayOrientation = 0 \<rparr>),
       DISPLAY_DEVICE_ATTACHED_TO_DESKTOP = 1,
       DISPLAY_DEVICE_PRIMARY_DEVICE = 4 \<rparr>"

text \<open>What the script writes when no display is found.\<close>

definition no_displays_text :: string where
  "no_displays_text =
     [newline] @ emoji_desktop @ ''  Detecting connected displays...'' @ [newline] @
     [newline] @ emoji_cross @ '' ERROR: No displays detected!'' @ [newline] @
     ''Make sure your monitors are connected and turned on.'' @ [newline]"

section \<open>Properties of the string methods\<close>

lemma split_scan_nonempty: "split_scan sep cur s \<noteq> []"
  by (induction s arbitrary: cur) auto

lemma str_split_nonempty: "str_split sep s \<noteq> []"
  by (simp add: str_split_def split_scan_nonempty)

lemma split_scan_length: "length (split_scan sep cur s) = Suc (count_list s sep)"
  by (induction s arbitrary: cur) auto

lemma split_scan_parts: "sep \<notin> set cur \<Longrightarrow> p \<in> set (split_scan sep cur s) \<Longrightarrow> sep \<notin> set p"
proof (induction s arbitrary: cur)
  case Nil
  then show ?case by simp
next
  case (Cons c cs)
  show ?case
  proof (cases "c = sep")
    case True
    then have "p = cur \<or> p \<in> set (split_scan sep [] cs)" using Cons.prems(2) by simp
    then show ?thesis using Cons.prems(1) Cons.IH [of "[]"] by auto
  next
    case False
    then have "p \<in> set (split_scan sep (cur @ [c]) cs)" using Cons.prems(2) by simp
    moreover have "sep \<notin> set (cur @ [c])" using False Cons.prems(1) by simp
    ultimately show ?thesis by (rule Cons.IH [rotated])
  qed
qed

lemma split_scan_last_none: "sep \<notin> set s \<Longrightarrow> last (split_scan sep cur s) = cur @ s"
  by (induction s arbitrary: cur) auto

lemma split_scan_last_some:
  "sep \<in> set s \<Longrightarrow> last (split_scan sep cur s) = rev (takeWhile (\<lambda>c. c \<noteq> sep) (rev s))"
proof (induction s arbitrary: cur)
  case Nil
  then show ?case by simp
next
  case (Cons c cs)
  show ?case
  proof (cases "sep \<in> set cs")
    case True
    then have "takeWhile (\<lambda>c. c \<noteq> sep) (rev cs @ [c]) = takeWhile (\<lambda>c. c \<noteq> sep) (rev cs)"
      by auto
    then show ?thesis using Cons.IH True by (simp add: split_scan_nonempty)
  next
    case False
    then have c: "c = sep" using Cons.prems by simp
    have "takeWhile (\<lambda>c. c \<noteq> sep) (rev cs @ [c]) = rev cs"
      using False c by (subst takeWhile_append2) auto
    then show ?thesis using False c by (simp add: split_scan_nonempty split_scan_last_none)
  qed
qed

lemma str_split_last: "last (str_split sep s) = rev (takeWhile (\<lambda>c. c \<noteq> sep) (rev s))"
proof (cases "sep \<in> set s")
  case True
  then show ?thesis by (simp add: str_split_def split_scan_last_some)
next
  case False
  then have tw: "takeWhile (\<lambda>c. c \<noteq> sep) (rev s) = rev s" by auto
  show ?thesis unfolding str_split_def split_scan_last_none [OF False] tw by simp
qed

lemma str_split_length: "length (str_split sep s) = Suc (count_list s sep)"
  by (simp add: str_split_def split_scan_length)

lemma str_split_parts: "p \<in> set (str_split sep s) \<Longrightarrow> sep \<notin> set p"
  using split_scan_parts [of sep "[]" p s] by (simp add: str_split_def)

lemma split_scan_join: "str_join sep (split_scan sep cur s) = cur @ s"
proof (induction s arbitrary: cur)
  case Nil
  show ?case by simp
next
  case (Cons c cs)
  show ?case
  proof (cases "c = sep")
    case True
    obtain q qs where q: "split_scan sep [] cs = q # qs"
      using split_scan_nonempty [of sep "[]" cs] by (cases "split_scan sep [] cs") auto
    have "str_join sep (q # qs) = cs" using Cons.IH [of "[]"] q by simp
    then show ?thesis using True q by simp
  next
    case False
    then show ?thesis using Cons.IH [of "cur @ [c]"] by simp
  qed
qed

lemma str_split_join: "str_join sep (str_split sep s) = s"
  by (simp add: str_split_def split_scan_join)

section \<open>Properties of \<^verbatim>\<open>extract_display_id\<close>\<close>

lemma extract_display_id_str:
  "extract_display_id (PyStr s) =
     (if 3 \<le> length (str_split CHR ''#'' s)
      then str_split CHR ''#'' s ! 1 @ ''_'' @ str_split CHR ''#'' s ! 2
      else last (str_split backslash s))"
  by (simp add: extract_display_id_def extract_display_id_try_def item_def last_item_def
      str_split_nonempty)

text \<open>
  Claim C1. For a device id whose split at \<^verbatim>\<open>#\<close> has at least three parts the result is
  \<^verbatim>\<open>parts[1] + "_" + parts[2]\<close>, so the documented device path gives
  \<^verbatim>\<open>GSM5BBB_4&1a2b3c&0&UID123\<close>; with fewer than three parts the result is the last
  segment of the split at the backslash, so \<^verbatim>\<open>A\B\C\<close> gives \<^verbatim>\<open>C\<close>.
\<close>

theorem extract_display_id_parts:
  "(3 \<le> length (str_split CHR ''#'' s) \<longrightarrow>
      extract_display_id (PyStr s) = str_split CHR ''#'' s ! 1 @ ''_'' @ str_split CHR ''#'' s ! 2)
   \<and> (length (str_split CHR ''#'' s) < 3 \<longrightarrow>
      extract_display_id (PyStr s) = last (str_split backslash s))
   \<and> extract_display_id (PyStr ([backslash, backslash] @ ''?'' @ [backslash] @
         ''DISPLAY#GSM5BBB#4&1a2b3c&0&UID123#{guid}'')) = ''GSM5BBB_4&1a2b3c&0&UID123''
   \<and> extract_display_id (PyStr (''A'' @ [backslash] @ ''B'' @ [backslash] @ ''C'')) = ''C''"
proof -
  have "extract_display_id (PyStr ([backslash, backslash] @ ''?'' @ [backslash] @
         ''DISPLAY#GSM5BBB#4&1a2b3c&0&UID123#{guid}'')) = ''GSM5BBB_4&1a2b3c&0&UID123''"
    by (simp add: extract_display_id_str str_split_def backslash_def)
  moreover have "extract_display_id (PyStr (''A'' @ [backslash] @ ''B'' @ [backslash] @ ''C'')) = ''C''"
    by (simp add: extract_display_id_str str_split_def backslash_def)
  ultimately show ?thesis by (simp add: extract_display_id_str)
qed

theorem extract_display_id_parts_witness:
  "3 \<le> length (str_split CHR ''#'' ''a#b#c#d'')
   \<and> extract_display_id (PyStr ''a#b#c#d'') = ''b_c''
   \<and> length (str_split CHR ''#'' ''a#b'') < 3
   \<and> extract_display_id (PyStr ''a#b'') = ''a#b''"
  using extract_display_id_parts [of "''a#b#c#d''"] extract_display_id_parts [of "''a#b''"]
  by (simp add: str_split_def backslash_def)

text \<open>
  Claim C2, as stated: \<^verbatim>\<open>None\<close> and the empty string both give \<^verbatim>\<open>"UNKNOWN"\<close>. The empty
  string does not: nothing raises on it, and its only segment is the empty string.
\<close>

theorem extract_display_id_empty_counterexample:
  "extract_display_id (PyStr []) \<noteq> ''UNKNOWN''"
  by (simp add: extract_display_id_str str_split_def)

text \<open>
  Claim C2, amended: \<^verbatim>\<open>None\<close> gives exactly \<^verbatim>\<open>"UNKNOWN"\<close>, and the empty string gives
  the empty string.
\<close>

theorem extract_display_id_none_and_empty:
  "extract_display_id PyNone = ''UNKNOWN'' \<and> extract_display_id (PyStr []) = []"
  by (simp add: extract_display_id_def extract_display_id_try_def last_item_def str_split_def)

lemma extract_display_id_try_str: "\<exists>r. extract_display_id_try (PyStr s) = Inr r"
  by (simp add: extract_display_id_try_def item_def last_item_def str_split_nonempty)

lemma extract_display_id_try_other:
  "\<forall>s. v \<noteq> PyStr s \<Longrightarrow> \<exists>e. extract_display_id_try v = Inl e"
  by (cases v) (simp_all add: extract_display_id_try_def)

section \<open>Properties of the formatting functions\<close>

lemma digits_small: "n < 10 \<Longrightarrow> digits n = [''0123456789'' ! n]"
  by (simp add: digits.simps)

lemma digits_large: "10 \<le> n \<Longrightarrow> digits n = digits (n div 10) @ [''0123456789'' ! (n mod 10)]"
  by (subst digits.simps) simp

lemma str_int_0: "str_int 0 = ''0''"
  by (simp add: str_int_def digits_small)

lemma str_int_99: "str_int 99 = ''99''"
  by (simp add: str_int_def digits_large digits_small)

lemma str_int_1080: "str_int 1080 = ''1080''"
  by (simp add: str_int_def digits_large digits_small)

lemma str_int_1920: "str_int 1920 = ''1920''"
  by (simp add: str_int_def digits_large digits_small)

lemma digit_char_value: "d < 10 \<Longrightarrow> (of_char (''0123456789'' ! d) :: nat) = 48 + d"
proof -
  assume "d < 10"
  then have "d \<in> {0, 1, 2, 3, 4, 5, 6, 7, 8, 9}" by auto
  then show ?thesis by auto
qed

lemma decimal_value_snoc:
  "decimal_value (s @ [c]) = 10 * decimal_value s + (of_char c - 48)"
  by (simp add: decimal_value_def)

lemma decimal_value_digits: "decimal_value (digits n) = n"
proof (induction n rule: digits.induct)
  case (1 n)
  show ?case
  proof (cases "n < 10")
    case True
    then show ?thesis by (simp add: digits_small decimal_value_def digit_char_value)
  next
    case False
    then have "decimal_value (digits (n div 10)) = n div 10" using "1.IH" by simp
    then show ?thesis
      using False by (simp add: digits_large decimal_value_snoc digit_char_value)
  qed
qed

lemma digits_nonempty: "digits n \<noteq> []"
  by (subst digits.simps) simp

lemma digits_no_leading_zero: "0 < n \<Longrightarrow> hd (digits n) \<noteq> CHR ''0''"
proof (induction n rule: digits.induct)
  case (1 n)
  show ?case
  proof (cases "n < 10")
    case True
    then have "n \<in> {1, 2, 3, 4, 5, 6, 7, 8, 9}" using "1.prems" by auto
    then show ?thesis by (auto simp: digits_small)
  next
    case False
    then have "hd (digits (n div 10)) \<noteq> CHR ''0''" using "1.IH" by simp
    then show ?thesis using False by (simp add: digits_large digits_nonempty)
  qed
qed

section \<open>\<^verbatim>\<open>extract_display_id\<close> on every argument\<close>

lemma extract_display_id_any_Value: "extract_display_id_any (Value v) = EStr (extract_display_id v)"
proof (cases "method_split v CHR ''#''")
  case (Inl e)
  then show ?thesis
    by (simp add: extract_display_id_any_def extract_display_id_any_try_def
        extract_display_id_def extract_display_id_try_def)
next
  case (Inr parts)
  then obtain s where v: "v = PyStr s" by (cases v) simp_all
  show ?thesis
    unfolding v
    by (simp add: extract_display_id_any_def extract_display_id_any_try_def
        extract_display_id_def extract_display_id_try_def item_def last_item_def
        str_split_nonempty last_map)
qed

lemma extract_display_id_other:
  assumes "\<forall>s. v \<noteq> PyStr s"
  shows "extract_display_id v = ''UNKNOWN''"
proof -
  obtain e where "extract_display_id_try v = Inl e"
    using assms extract_display_id_try_other by blast
  then show ?thesis by (simp add: extract_display_id_def)
qed

text \<open>
  Claim C10, as stated: on every input value the function returns some string. An object
  whose own \<^verbatim>\<open>split\<close> returns \<^verbatim>\<open>[1]\<close> has fewer than three parts, nothing raises, and the
  second \<^verbatim>\<open>return\<close> hands back the last element: the integer 1.
\<close>

theorem extract_display_id_any_counterexample:
  "extract_display_id_any object_split_one = EInt 1"
  by (simp add: extract_display_id_any_def extract_display_id_any_try_def object_split_one_def
      last_item_def)

text \<open>
  Claim C10, amended. The function never propagates an exception: it returns what the body
  returns, and \<^verbatim>\<open>"UNKNOWN"\<close> whenever the body raises, whatever it raises. On the built-in
  values the result is a string, the one computed above, and it is \<^verbatim>\<open>"UNKNOWN"\<close> for every
  one of them that is not a string. For an object with its own \<^verbatim>\<open>split\<close> the result is
  \<^verbatim>\<open>"UNKNOWN"\<close> when the method raises, the formatted string of parts 1 and 2 when it
  returns three parts or more, and otherwise the last element of the second split as it
  is, which need not be a string.
\<close>

theorem extract_display_id_any_total:
  "((\<exists>r. extract_display_id_any_try a = Inr r \<and> extract_display_id_any a = r)
      \<or> (\<exists>e. extract_display_id_any_try a = Inl e \<and> extract_display_id_any a = EStr ''UNKNOWN''))
   \<and> extract_display_id_any (Value v) = EStr (extract_display_id v)
   \<and> ((\<forall>s. v \<noteq> PyStr s) \<longrightarrow> extract_display_id_any (Value v) = EStr ''UNKNOWN'')
   \<and> (\<forall>e. split CHR ''#'' = Inl e \<longrightarrow> extract_display_id_any (Object split) = EStr ''UNKNOWN'')
   \<and> (\<forall>parts. split CHR ''#'' = Inr parts \<and> 3 \<le> length parts \<longrightarrow>
         extract_display_id_any (Object split)
           = EStr (format_field (parts ! 1) @ ''_'' @ format_field (parts ! 2)))
   \<and> (\<forall>parts segments. split CHR ''#'' = Inr parts \<and> length parts < 3
           \<and> split backslash = Inr segments \<and> segments \<noteq> [] \<longrightarrow>
         extract_display_id_any (Object split) = last segments)"
proof -
  have a: "(\<exists>r. extract_display_id_any_try a = Inr r \<and> extract_display_id_any a = r)
      \<or> (\<exists>e. extract_display_id_any_try a = Inl e \<and> extract_display_id_any a = EStr ''UNKNOWN'')"
    by (cases "extract_display_id_any_try a") (simp_all add: extract_display_id_any_def)
  have b: "extract_display_id_any (Value v) = EStr (extract_display_id v)"
    by (rule extract_display_id_any_Value)
  have c: "(\<forall>s. v \<noteq> PyStr s) \<longrightarrow> extract_display_id_any (Value v) = EStr ''UNKNOWN''"
    using b extract_display_id_other by simp
  have d: "\<forall>e. split CHR ''#'' = Inl e \<longrightarrow> extract_display_id_any (Object split) = EStr ''UNKNOWN''"
    by (simp add: extract_display_id_any_def extract_display_id_any_try_def)
  have e: "\<forall>parts. split CHR ''#'' = Inr parts \<and> 3 \<le> length parts \<longrightarrow>
         extract_display_id_any (Object split)
           = EStr (format_field (parts ! 1) @ ''_'' @ format_field (parts ! 2))"
    by (simp add: extract_display_id_any_def extract_display_id_any_try_def item_def)
  have f: "\<forall>parts segments. split CHR ''#'' = Inr parts \<and> length parts < 3
           \<and> split backslash = Inr segments \<and> segments \<noteq> [] \<longrightarrow>
         extract_display_id_any (Object split) = last segments"
    by (simp add: extract_display_id_any_def extract_display_id_any_try_def last_item_def)
  from a b c d e f show ?thesis by (intro conjI)
qed

theorem extract_display_id_any_total_witness:
  "(\<forall>s. PyList [PyInt 7, PyNone] \<noteq> PyStr s)
   \<and> extract_display_id_any (Value (PyList [PyInt 7, PyNone])) = EStr ''UNKNOWN''
   \<and> extract_display_id_any object_split_raises = EStr ''UNKNOWN''
   \<and> extract_display_id_any object_split_three = EStr ''2_None''
   \<and> extract_display_id_any object_split_one = EInt 1"
proof -
  have n: "\<forall>s. PyList [PyInt 7, PyNone] \<noteq> PyStr s" by simp
  have w1: "extract_display_id_any (Value (PyList [PyInt 7, PyNone])) = EStr ''UNKNOWN''"
    using extract_display_id_any_total
      [of object_split_one "PyList [PyInt 7, PyNone]" "\<lambda>sep. Inr [EInt 1]"] n
    by blast
  have w2: "extract_display_id_any object_split_raises = EStr ''UNKNOWN''"
    using extract_display_id_any_total
      [of object_split_raises PyNone "\<lambda>sep. Inl (Exception ''split failed'')"]
    by (simp add: object_split_raises_def)
  have w3: "extract_display_id_any object_split_three = EStr ''2_None''"
    using extract_display_id_any_total
      [of object_split_three PyNone "\<lambda>sep. Inr [EInt 1, EInt 2, ENone]"]
    by (simp add: object_split_three_def str_int_def digits_small)
  have w4: "extract_display_id_any object_split_one = EInt 1"
    using extract_display_id_any_total [of object_split_one PyNone "\<lambda>sep. Inr [EInt 1]"]
    by (simp add: object_split_one_def)
  from n w1 w2 w3 w4 show ?thesis by (intro conjI)
qed

section \<open>The rotation label\<close>

text \<open>
  Claim C4. The codes 0 to 3 give the four fixed labels, every other integer code gives
  \<^verbatim>\<open>Unknown (\<close>, the code in decimal, the degree sign and \<^verbatim>\<open>)\<close>; so does 99.
\<close>

theorem get_orientation_name_table:
  "get_orientation_name 0 = ''Landscape (0'' @ degree_sign @ '')''
   \<and> get_orientation_name 1 = ''Portrait (90'' @ degree_sign @ '')''
   \<and> get_orientation_name 2 = ''Landscape Flipped (180'' @ degree_sign @ '')''
   \<and> get_orientation_name 3 = ''Portrait Flipped (270'' @ degree_sign @ '')''
   \<and> (code \<notin> {0, 1, 2, 3} \<longrightarrow>
        get_orientation_name code = ''Unknown ('' @ str_int code @ degree_sign @ '')'')
   \<and> get_orientation_name 99 = ''Unknown (99'' @ degree_sign @ '')''"
  by (simp add: get_orientation_name_def orientations_def str_int_99)

theorem get_orientation_name_table_witness:
  "(4::int) \<notin> {0, 1, 2, 3}
   \<and> get_orientation_name 4 = ''Unknown (4'' @ degree_sign @ '')''
   \<and> (- 1::int) \<notin> {0, 1, 2, 3}
   \<and> get_orientation_name (- 1) = ''Unknown (-1'' @ degree_sign @ '')''"
  using get_orientation_name_table [of 4] get_orientation_name_table [of "- 1"]
  by (simp add: str_int_def digits_small)

section \<open>The report only appends to standard output\<close>

lemma appendsD: "appends act \<Longrightarrow> act out = out @ act []"
  unfolding appends_def by (erule allE)

lemma print_appends: "appends (print s)"
  by (simp add: appends_def print_def)

lemma fold_appends:
  assumes "\<And>x. x \<in> set xs \<Longrightarrow> appends (body x)"
  shows "fold body xs out = out @ fold body xs []"
  using assms
proof (induction xs arbitrary: out)
  case Nil
  show ?case by simp
next
  case (Cons x xs)
  have step: "\<And>out. fold body xs out = out @ fold body xs []"
    by (rule Cons.IH) (simp add: Cons.prems)
  have x: "body x out = out @ body x []"
    by (rule appendsD) (simp add: Cons.prems)
  have "fold body (x # xs) out = fold body xs (body x out)" by simp
  also have "\<dots> = body x out @ fold body xs []" by (rule step)
  also have "\<dots> = out @ (body x [] @ fold body xs [])" by (simp only: x append_assoc)
  also have "body x [] @ fold body xs [] = fold body xs (body x [])" by (rule step [symmetric])
  also have "\<dots> = fold body (x # xs) []" by simp
  finally show ?case .
qed

lemma do_all_appends:
  assumes "\<And>act. act \<in> set acts \<Longrightarrow> appends act"
  shows "appends (do_all acts)"
proof -
  have "\<And>out. fold (\<lambda>act. act) acts out = out @ fold (\<lambda>act. act) acts []"
    using assms by (rule fold_appends)
  then show ?thesis unfolding appends_def do_all_def by (intro allI)
qed

lemma for_each_appends:
  assumes "\<And>x. x \<in> set xs \<Longrightarrow> appends (body x)"
  shows "appends (for_each xs body)"
proof -
  have "\<And>out. fold body xs out = out @ fold body xs []"
    using assms by (rule fold_appends)
  then show ?thesis unfolding appends_def for_each_def by (intro allI)
qed

lemma do_all_Nil: "do_all [] out = out"
  by (simp add: do_all_def)

lemma do_all_Cons: "do_all (act # acts) out = do_all acts (act out)"
  by (simp add: do_all_def)

lemma for_each_Nil: "for_each [] body out = out"
  by (simp add: for_each_def)

lemma for_each_Cons: "for_each (x # xs) body out = for_each xs body (body x out)"
  by (simp add: for_each_def)


lemma report_header_appends: "appends (report_header displays)"
  unfolding report_header_def by (rule do_all_appends) (auto simp: print_appends)

lemma detail_block_appends: "appends (detail_block display)"
  unfolding detail_block_def Let_def by (rule do_all_appends) (auto simp: print_appends)

lemma folder_entry_appends: "appends (folder_entry display)"
  unfolding folder_entry_def Let_def by (rule do_all_appends) (auto simp: print_appends)

lemma config_entry_appends: "appends (config_entry display)"
  unfolding config_entry_def Let_def by (rule do_all_appends) (auto simp: print_appends)

lemma keyed_entry_appends: "appends (keyed_entry k)"
  by (simp add: keyed_entry_def print_appends)

lemma folder_suggestions_appends: "appends (folder_suggestions displays)"
  unfolding folder_suggestions_def
  by (rule do_all_appends) (auto simp: print_appends folder_entry_appends intro: for_each_appends)

lemma main_js_configuration_appends: "appends (main_js_configuration displays)"
  unfolding main_js_configuration_def
  by (rule do_all_appends) (auto simp: print_appends config_entry_appends intro: for_each_appends)

lemma alternative_header_appends: "appends alternative_header"
  unfolding alternative_header_def by (rule do_all_appends) (auto simp: print_appends)

lemma option1_appends: "appends (option1 displays)"
  unfolding option1_def
  by (rule do_all_appends) (auto simp: print_appends keyed_entry_appends intro: for_each_appends)

lemma option2_appends: "appends (option2 displays)"
  unfolding option2_def
  by (rule do_all_appends) (auto simp: print_appends keyed_entry_appends intro: for_each_appends)

lemma option3_appends: "appends (option3 displays)"
  unfolding option3_def
  by (rule do_all_appends) (auto simp: print_appends keyed_entry_appends intro: for_each_appends)

lemma option4_appends: "appends (option4 displays)"
  unfolding option4_def
  by (rule do_all_appends) (auto simp: print_appends keyed_entry_appends intro: for_each_appends)

lemma print_display_report_appends: "appends (print_display_report displays)"
  unfolding print_display_report_def
  by (rule do_all_appends)
    (auto simp: print_appends report_header_appends detail_block_appends
      folder_suggestions_appends main_js_configuration_appends alternative_header_appends
      option1_appends option2_appends option3_appends option4_appends
      intro: for_each_appends)

text \<open>
  Claim C6. The text a run of \<^verbatim>\<open>print_display_report\<close> writes is determined by the
  display sequence alone, whatever is on standard output before: a second run on the same
  sequence writes the same bytes again.
\<close>

theorem print_display_report_deterministic:
  "print_display_report displays out = out @ print_display_report displays []
   \<and> print_display_report displays (print_display_report displays out)
       = out @ print_display_report displays [] @ print_display_report displays []"
proof -
  have a: "\<And>out. print_display_report displays out = out @ print_display_report displays []"
    using print_display_report_appends by (rule appendsD)
  have "print_display_report displays (print_display_report displays out)
        = print_display_report displays out @ print_display_report displays []"
    by (rule a)
  also have "\<dots> = out @ print_display_report displays [] @ print_display_report displays []"
    by (simp only: a [of out] append_assoc)
  finally show ?thesis using a [of out] by (intro conjI)
qed

subsection \<open>The orientation line of a detail block\<close>

text \<open>
  The detail block of a display, as the text before its orientation line, that line, and
  the text after it.
\<close>

lemma do_all_split:
  assumes "\<And>act. act \<in> set (before @ [a] @ after) \<Longrightarrow> appends act"
  shows "do_all (before @ [a] @ after) [] = do_all before [] @ a [] @ do_all after []"
proof -
  have a: "appends a" using assms by simp
  have after: "appends (do_all after)" by (rule do_all_appends) (simp add: assms)
  have "do_all (before @ [a] @ after) [] = do_all after (a (do_all before []))"
    by (simp add: do_all_def)
  also have "\<dots> = a (do_all before []) @ do_all after []" by (rule appendsD [OF after])
  also have "a (do_all before []) = do_all before [] @ a []" by (rule appendsD [OF a])
  finally show ?thesis by simp
qed

lemma detail_block_text:
  "detail_block display [] =
     do_all
       [print (box_top_left @ repeat box_horizontal 78 @ box_top_right),
        print (box_vertical @ '' Display '' @ str_int (index display) @
               ljust 70 (if is_primary display then '' (PRIMARY)'' else []) @ box_vertical),
        print (box_bottom_left @ repeat box_horizontal 78 @ box_bottom_right),
        print (''  Monitor Name:       '' @ device_string display),
        print (''  Device Name:        '' @ device_name display),
        print (''  Simple ID:          '' @ extract_display_id (PyStr (device_id display))),
        print (''  Resolution:         '' @ str_int (width display) @ ''x'' @
               str_int (height display))] [] @
     ''  Orientation:        '' @ classify_orientation (width display) (height display) @
     '' ('' @ get_orientation_name (orientation display) @ '')'' @ [newline] @
     do_all
       [print (''  Position:           x:'' @ str_int (position_x display) @ '', y:'' @
               str_int (position_y display)),
        print (''  Refresh Rate:       '' @ str_int (frequency display) @ '' Hz''),
        print (''  Color Depth:        '' @ str_int (bits_per_pixel display) @ ''-bit''),
        print (''  Primary Display:    '' @ (if is_primary display then ''Yes'' else ''No'')),
        print ([newline] @ ''  Full Device ID:''),
        print (''    '' @ device_id display),
        print ([newline] @ ''  Registry Key:''),
        print (''    '' @ device_key display),
        print []] []"
proof -
  let ?line = "''  Orientation:        '' @ classify_orientation (width display) (height display) @
     '' ('' @ get_orientation_name (orientation display) @ '')''"
  let ?before = "[print (box_top_left @ repeat box_horizontal 78 @ box_top_right),
         print (box_vertical @ '' Display '' @ str_int (index display) @
                ljust 70 (if is_primary display then '' (PRIMARY)'' else []) @ box_vertical),
         print (box_bottom_left @ repeat box_horizontal 78 @ box_bottom_right),
         print (''  Monitor Name:       '' @ device_string display),
         print (''  Device Name:        '' @ device_name display),
         print (''  Simple ID:          '' @ extract_display_id (PyStr (device_id display))),
         print (''  Resolution:         '' @ str_int (width display) @ ''x'' @
                str_int (height display))]"
  let ?after = "[print (''  Position:           x:'' @ str_int (position_x display) @ '', y:'' @
                str_int (position_y display)),
         print (''  Refresh Rate:       '' @ str_int (frequency display) @ '' Hz''),
         print (''  Color Depth:        '' @ str_int (bits_per_pixel display) @ ''-bit''),
         print (''  Primary Display:    '' @ (if is_primary display then ''Yes'' else ''No'')),
         print ([newline] @ ''  Full Device ID:''),
         print (''    '' @ device_id display),
         print ([newline] @ ''  Registry Key:''),
         print (''    '' @ device_key display),
         print []]"
  have "detail_block display = do_all (?before @ [print ?line] @ ?after)"
    by (simp add: detail_block_def Let_def)
  moreover have "do_all (?before @ [print ?line] @ ?after) []
      = do_all ?before [] @ print ?line [] @ do_all ?after []"
    by (rule do_all_split) (auto simp: print_appends)
  ultimately show ?thesis
    by (simp add: print_def)
qed

text \<open>
  Claim C3. In the detail block of a display the line \<^verbatim>\<open>Orientation:\<close> carries the
  classification by geometry: \<^verbatim>\<open>Landscape\<close> when the width exceeds the height,
  \<^verbatim>\<open>Portrait\<close> when it is smaller and \<^verbatim>\<open>Square\<close> when they are equal (for all integers,
  the positive ones among them). Whatever rotation code the record reports, the word stays
  the same and only the label in parentheses follows the code. The three documented
  instances of the classifying expression hold.
\<close>

theorem detail_block_orientation_by_geometry:
  "(let before = do_all
       [print (box_top_left @ repeat box_horizontal 78 @ box_top_right),
        print (box_vertical @ '' Display '' @ str_int (index display) @
               ljust 70 (if is_primary display then '' (PRIMARY)'' else []) @ box_vertical),
        print (box_bottom_left @ repeat box_horizontal 78 @ box_bottom_right),
        print (''  Monitor Name:       '' @ device_string display),
        print (''  Device Name:        '' @ device_name display),
        print (''  Simple ID:          '' @ extract_display_id (PyStr (device_id display))),
        print (''  Resolution:         '' @ str_int (width display) @ ''x'' @
               str_int (height display))] [];
       after = do_all
       [print (''  Position:           x:'' @ str_int (position_x display) @ '', y:'' @
               str_int (position_y display)),
        print (''  Refresh Rate:       '' @ str_int (frequency display) @ '' Hz''),
        print (''  Color Depth:        '' @ str_int (bits_per_pixel display) @ ''-bit''),
        print (''  Primary Display:    '' @ (if is_primary display then ''Yes'' else ''No'')),
        print ([newline] @ ''  Full Device ID:''),
        print (''    '' @ device_id display),
        print ([newline] @ ''  Registry Key:''),
        print (''    '' @ device_key display),
        print []] [];
       block_with = (\<lambda>word. before @ ''  Orientation:        '' @ word @ '' ('' @
                      get_orientation_name code @ '')'' @ [newline] @ after)
    in (width display > height display \<longrightarrow>
          detail_block (display\<lparr>orientation := code\<rparr>) [] = block_with ''Landscape'')
     \<and> (width display < height display \<longrightarrow>
          detail_block (display\<lparr>orientation := code\<rparr>) [] = block_with ''Portrait'')
     \<and> (width display = height display \<longrightarrow>
          detail_block (display\<lparr>orientation := code\<rparr>) [] = block_with ''Square''))
   \<and> classify_orientation 1920 1080 = ''Landscape''
   \<and> classify_orientation 1080 1920 = ''Portrait''
   \<and> classify_orientation 500 500 = ''Square''"
  unfolding Let_def detail_block_text [of "display\<lparr>orientation := code\<rparr>"]
  by (simp add: classify_orientation_def)

theorem detail_block_orientation_by_geometry_witness:
  "width primary_example > height primary_example
   \<and> (\<exists>before after. detail_block (primary_example\<lparr>orientation := 1\<rparr>) [] =
         before @ ''  Orientation:        '' @ ''Landscape'' @ '' ('' @
         get_orientation_name 1 @ '')'' @ [newline] @ after)
   \<and> width secondary_example < height secondary_example
   \<and> (\<exists>before after. detail_block (secondary_example\<lparr>orientation := 0\<rparr>) [] =
         before @ ''  Orientation:        '' @ ''Portrait'' @ '' ('' @
         get_orientation_name 0 @ '')'' @ [newline] @ after)
   \<and> width (primary_example\<lparr>height := 1920\<rparr>) = height (primary_example\<lparr>height := 1920\<rparr>)
   \<and> (\<exists>before after.
         detail_block (primary_example\<lparr>height := 1920, orientation := 2\<rparr>) [] =
         before @ ''  Orientation:        '' @ ''Square'' @ '' ('' @
         get_orientation_name 2 @ '')'' @ [newline] @ after)"
proof -
  have h1: "width primary_example > height primary_example"
    by (simp add: primary_example_def)
  have h2: "width secondary_example < height secondary_example"
    by (simp add: secondary_example_def)
  have h3: "width (primary_example\<lparr>height := 1920\<rparr>) = height (primary_example\<lparr>height := 1920\<rparr>)"
    by (simp add: primary_example_def)
  have w1: "\<exists>before after. detail_block (primary_example\<lparr>orientation := 1\<rparr>) [] =
         before @ ''  Orientation:        '' @ ''Landscape'' @ '' ('' @
         get_orientation_name 1 @ '')'' @ [newline] @ after"
    using detail_block_orientation_by_geometry [of primary_example 1] h1
    unfolding Let_def by blast
  have w2: "\<exists>before after. detail_block (secondary_example\<lparr>orientation := 0\<rparr>) [] =
         before @ ''  Orientation:        '' @ ''Portrait'' @ '' ('' @
         get_orientation_name 0 @ '')'' @ [newline] @ after"
    using detail_block_orientation_by_geometry [of secondary_example 0] h2
    unfolding Let_def by blast
  have w3: "\<exists>before after.
         detail_block (primary_example\<lparr>height := 1920, orientation := 2\<rparr>) [] =
         before @ ''  Orientation:        '' @ ''Square'' @ '' ('' @
         get_orientation_name 2 @ '')'' @ [newline] @ after"
    using detail_block_orientation_by_geometry [of "primary_example\<lparr>height := 1920\<rparr>" 2] h3
    unfolding Let_def by blast
  from h1 w1 h2 w2 h3 w3 show ?thesis by (intro conjI)
qed

section \<open>The report does not read \<^verbatim>\<open>state_flags\<close>\<close>

lemma fold_rel:
  "list_all2 R xs ys \<Longrightarrow> (\<And>x y. R x y \<Longrightarrow> f x = g y) \<Longrightarrow> fold f xs out = fold g ys out"
proof (induction xs ys arbitrary: out rule: list_all2_induct)
  case Nil
  show ?case by simp
next
  case (Cons x xs y ys)
  have "f x = g y" using Cons.hyps(1) Cons.prems by simp
  then show ?case using Cons.IH [OF Cons.prems] by simp
qed

lemma for_each_rel:
  assumes "list_all2 R xs ys" and "\<And>x y. R x y \<Longrightarrow> f x = g y"
  shows "for_each xs f = for_each ys g"
proof
  fix out
  show "for_each xs f out = for_each ys g out"
    unfolding for_each_def using assms by (rule fold_rel)
qed

lemma detail_block_same: "same_but_state_flags d d' \<Longrightarrow> detail_block d = detail_block d'"
  by (simp add: detail_block_def same_but_state_flags_def)

lemma folder_entry_same: "same_but_state_flags d d' \<Longrightarrow> folder_entry d = folder_entry d'"
  by (simp add: folder_entry_def same_but_state_flags_def)

lemma config_entry_same: "same_but_state_flags d d' \<Longrightarrow> config_entry d = config_entry d'"
  by (simp add: config_entry_def same_but_state_flags_def)

lemma keys_same:
  "same_but_state_flags d d' \<Longrightarrow>
     simple_id_key d = simple_id_key d' \<and> resolution_key d = resolution_key d' \<and>
     position_key d = position_key d' \<and> device_string d = device_string d'"
  by (simp add: simple_id_key_def resolution_key_def position_key_def same_but_state_flags_def)

text \<open>
  Claim C9. Two display sequences that agree, position by position, on every field except
  \<^verbatim>\<open>state_flags\<close> (so also on \<^verbatim>\<open>is_primary\<close>) give the same report: the field is
  stored in the record and never printed.
\<close>

theorem print_display_report_ignores_state_flags:
  assumes "list_all2 same_but_state_flags displays displays'"
  shows "print_display_report displays out = print_display_report displays' out"
proof -
  have len: "length displays = length displays'"
    using assms by (rule list_all2_lengthD)
  have "for_each displays detail_block = for_each displays' detail_block"
    using assms detail_block_same by (rule for_each_rel)
  moreover have "for_each displays folder_entry = for_each displays' folder_entry"
    using assms folder_entry_same by (rule for_each_rel)
  moreover have "for_each displays config_entry = for_each displays' config_entry"
    using assms config_entry_same by (rule for_each_rel)
  moreover have "for_each displays (\<lambda>display. keyed_entry (simple_id_key display))
      = for_each displays' (\<lambda>display. keyed_entry (simple_id_key display))"
    using assms by (rule for_each_rel) (simp add: keys_same)
  moreover have "for_each displays (\<lambda>display. keyed_entry (resolution_key display))
      = for_each displays' (\<lambda>display. keyed_entry (resolution_key display))"
    using assms by (rule for_each_rel) (simp add: keys_same)
  moreover have "for_each displays (\<lambda>display. keyed_entry (position_key display))
      = for_each displays' (\<lambda>display. keyed_entry (position_key display))"
    using assms by (rule for_each_rel) (simp add: keys_same)
  moreover have "for_each displays (\<lambda>display. keyed_entry (device_string display))
      = for_each displays' (\<lambda>display. keyed_entry (device_string display))"
    using assms by (rule for_each_rel) (simp add: keys_same)
  ultimately show ?thesis
    unfolding print_display_report_def report_header_def folder_suggestions_def
      main_js_configuration_def option1_def option2_def option3_def option4_def
    by (simp only: len)
qed

theorem print_display_report_ignores_state_flags_witness:
  "list_all2 same_but_state_flags
     [primary_example, secondary_example]
     [primary_example\<lparr>state_flags := 134217733\<rparr>, secondary_example\<lparr>state_flags := 0\<rparr>]
   \<and> print_display_report [primary_example, secondary_example] []
     = print_display_report
         [primary_example\<lparr>state_flags := 134217733\<rparr>, secondary_example\<lparr>state_flags := 0\<rparr>] []"
proof -
  have h: "list_all2 same_but_state_flags
     [primary_example, secondary_example]
     [primary_example\<lparr>state_flags := 134217733\<rparr>, secondary_example\<lparr>state_flags := 0\<rparr>]"
    by (simp add: same_but_state_flags_def)
  show ?thesis
    using h print_display_report_ignores_state_flags [OF h, of "[]"] by (intro conjI)
qed

section \<open>The sections of the report for two displays\<close>

lemma print_display_report_sections:
  "print_display_report displays [] =
     report_header displays [] @ for_each displays detail_block [] @
     folder_suggestions displays [] @ main_js_configuration displays [] @
     alternative_header [] @ option1 displays [] @ option2 displays [] @
     option3 displays [] @ option4 displays [] @ print (rule80 @ [newline]) []"
  unfolding print_display_report_def do_all_Cons do_all_Nil
  apply (subst appendsD [OF print_appends])
  apply (subst appendsD [OF option4_appends])
  apply (subst appendsD [OF option3_appends])
  apply (subst appendsD [OF option2_appends])
  apply (subst appendsD [OF option1_appends])
  apply (subst appendsD [OF alternative_header_appends])
  apply (subst appendsD [OF main_js_configuration_appends])
  apply (subst appendsD [OF folder_suggestions_appends])
  apply (subst appendsD [OF for_each_appends [OF detail_block_appends]])
  apply (simp only: append_assoc)
  done

text \<open>
  Claim C7. For a primary 1920x1080 display at (0,0) followed by a secondary 1080x1920
  display at (1920,0), the folder suggestions are the section header and then exactly two
  entries, first display first, each a title line, the \<^verbatim>\<open>_default\<close> path, the
  \<^verbatim>\<open>_trigger\<close> path and an empty line; each of the four alternative sections has
  exactly two keyed entries between its opening and closing lines, keyed by the simple id,
  by \<^verbatim>\<open>1920x1080\<close> and \<^verbatim>\<open>1080x1920\<close>, by \<^verbatim>\<open>x0_y0\<close> and \<^verbatim>\<open>x1920_y0\<close>,
  and by the device string; a keyed entry is the line \<^verbatim>\<open>  'key': 'folder_name',\<close>.
\<close>

theorem two_display_report_sections:
  assumes "is_primary d1" and "width d1 = 1920" and "height d1 = 1080"
    and "position_x d1 = 0" and "position_y d1 = 0"
    and "\<not> is_primary d2" and "width d2 = 1080" and "height d2 = 1920"
    and "position_x d2 = 1920" and "position_y d2 = 0"
  shows
  "folder_suggestions [d1, d2] = do_all
     [print rule80,
      print (repeat '' '' 25 @ ''FOLDER NAME SUGGESTIONS''),
      print (rule80 @ [newline]),
      print (''Create these folders in C:'' @ [backslash] @ '' for your videos:'' @ [newline]),
      print (''Display '' @ str_int (index d1) @ '': '' @ device_string d1 @
             '' (1920x1080 landscape)''),
      print (''  C:'' @ [backslash] @ extract_display_id (PyStr (device_id d1)) @
             ''_default'' @ [backslash] @ ''video.mp4''),
      print (''  C:'' @ [backslash] @ extract_display_id (PyStr (device_id d1)) @
             ''_trigger'' @ [backslash] @ ''video.mp4''),
      print [],
      print (''Display '' @ str_int (index d2) @ '': '' @ device_string d2 @
             '' (1080x1920 portrait)''),
      print (''  C:'' @ [backslash] @ extract_display_id (PyStr (device_id d2)) @
             ''_default'' @ [backslash] @ ''video.mp4''),
      print (''  C:'' @ [backslash] @ extract_display_id (PyStr (device_id d2)) @
             ''_trigger'' @ [backslash] @ ''video.mp4''),
      print []]
   \<and> option1 [d1, d2] = do_all
     [print ''Option 1: By Simple ID (Extracted from Device ID)'',
      print ''const DISPLAY_VIDEO_CONFIG = {'',
      keyed_entry (extract_display_id (PyStr (device_id d1))),
      keyed_entry (extract_display_id (PyStr (device_id d2))),
      print (''};'' @ [newline])]
   \<and> option2 [d1, d2] = do_all
     [print ''Option 2: By Resolution'',
      print ''const DISPLAY_VIDEO_CONFIG = {'',
      keyed_entry ''1920x1080'',
      keyed_entry ''1080x1920'',
      print (''};'' @ [newline])]
   \<and> option3 [d1, d2] = do_all
     [print ''Option 3: By Position'',
      print ''const DISPLAY_VIDEO_CONFIG = {'',
      keyed_entry ''x0_y0'',
      keyed_entry ''x1920_y0'',
      print (''};'' @ [newline])]
   \<and> option4 [d1, d2] = do_all
     [print ''Option 4: By Monitor Name (only if different)'',
      print ''const DISPLAY_VIDEO_CONFIG = {'',
      keyed_entry (device_string d1),
      keyed_entry (device_string d2),
      print (''};'' @ [newline])]
   \<and> (\<forall>k. keyed_entry k =
          print (''  '' @ [apostrophe] @ k @ [apostrophe] @ '': 'folder_name',''))
   \<and> print_display_report [d1, d2] [] =
       report_header [d1, d2] [] @ for_each [d1, d2] detail_block [] @
       folder_suggestions [d1, d2] [] @ main_js_configuration [d1, d2] [] @
       alternative_header [] @ option1 [d1, d2] [] @ option2 [d1, d2] [] @
       option3 [d1, d2] [] @ option4 [d1, d2] [] @ print (rule80 @ [newline]) []"
proof -
  have folder: "folder_suggestions [d1, d2] = do_all
     [print rule80,
      print (repeat '' '' 25 @ ''FOLDER NAME SUGGESTIONS''),
      print (rule80 @ [newline]),
      print (''Create these folders in C:'' @ [backslash] @ '' for your videos:'' @ [newline]),
      print (''Display '' @ str_int (index d1) @ '': '' @ device_string d1 @
             '' (1920x1080 landscape)''),
      print (''  C:'' @ [backslash] @ extract_display_id (PyStr (device_id d1)) @
             ''_default'' @ [backslash] @ ''video.mp4''),
      print (''  C:'' @ [backslash] @ extract_display_id (PyStr (device_id d1)) @
             ''_trigger'' @ [backslash] @ ''video.mp4''),
      print [],
      print (''Display '' @ str_int (index d2) @ '': '' @ device_string d2 @
             '' (1080x1920 portrait)''),
      print (''  C:'' @ [backslash] @ extract_display_id (PyStr (device_id d2)) @
             ''_default'' @ [backslash] @ ''video.mp4''),
      print (''  C:'' @ [backslash] @ extract_display_id (PyStr (device_id d2)) @
             ''_trigger'' @ [backslash] @ ''video.mp4''),
      print []]"
    by (rule ext)
      (simp add: folder_suggestions_def folder_entry_def Let_def do_all_Cons do_all_Nil for_each_Cons
        for_each_Nil classify_orientation_lower_def assms str_int_1920 str_int_1080)
  have o1: "option1 [d1, d2] = do_all
     [print ''Option 1: By Simple ID (Extracted from Device ID)'',
      print ''const DISPLAY_VIDEO_CONFIG = {'',
      keyed_entry (extract_display_id (PyStr (device_id d1))),
      keyed_entry (extract_display_id (PyStr (device_id d2))),
      print (''};'' @ [newline])]"
    by (rule ext)
      (simp add: option1_def simple_id_key_def do_all_Cons do_all_Nil for_each_Cons for_each_Nil)
  have o2: "option2 [d1, d2] = do_all
     [print ''Option 2: By Resolution'',
      print ''const DISPLAY_VIDEO_CONFIG = {'',
      keyed_entry ''1920x1080'',
      keyed_entry ''1080x1920'',
      print (''};'' @ [newline])]"
    by (rule ext)
      (simp add: option2_def resolution_key_def do_all_Cons do_all_Nil for_each_Cons
        for_each_Nil assms str_int_1920 str_int_1080)
  have o3: "option3 [d1, d2] = do_all
     [print ''Option 3: By Position'',
      print ''const DISPLAY_VIDEO_CONFIG = {'',
      keyed_entry ''x0_y0'',
      keyed_entry ''x1920_y0'',
      print (''};'' @ [newline])]"
    by (rule ext)
      (simp add: option3_def position_key_def do_all_Cons do_all_Nil for_each_Cons
        for_each_Nil assms str_int_1920 str_int_0)
  have o4: "option4 [d1, d2] = do_all
     [print ''Option 4: By Monitor Name (only if different)'',
      print ''const DISPLAY_VIDEO_CONFIG = {'',
      keyed_entry (device_string d1),
      keyed_entry (device_string d2),
      print (''};'' @ [newline])]"
    by (rule ext)
      (simp add: option4_def do_all_Cons do_all_Nil for_each_Cons for_each_Nil)
  have k: "\<forall>k. keyed_entry k =
          print (''  '' @ [apostrophe] @ k @ [apostrophe] @ '': 'folder_name','')"
    by (simp add: keyed_entry_def)
  show ?thesis
    using folder o1 o2 o3 o4 k print_display_report_sections [of "[d1, d2]"]
    by (intro conjI)
qed

theorem two_display_report_sections_witness:
  "is_primary primary_example \<and> width primary_example = 1920
   \<and> height primary_example = 1080
   \<and> position_x primary_example = 0 \<and> position_y primary_example = 0
   \<and> \<not> is_primary secondary_example \<and> width secondary_example = 1080
   \<and> height secondary_example = 1920
   \<and> position_x secondary_example = 1920 \<and> position_y secondary_example = 0
   \<and> option1 [primary_example, secondary_example] = do_all
     [print ''Option 1: By Simple ID (Extracted from Device ID)'',
      print ''const DISPLAY_VIDEO_CONFIG = {'',
      keyed_entry ''GSM5BBB_4&1a2b3c&0&UID123'',
      keyed_entry ''DEL4321_5&9f8e7d&0&UID456'',
      print (''};'' @ [newline])]
   \<and> option2 [primary_example, secondary_example] = do_all
     [print ''Option 2: By Resolution'',
      print ''const DISPLAY_VIDEO_CONFIG = {'',
      keyed_entry ''1920x1080'',
      keyed_entry ''1080x1920'',
      print (''};'' @ [newline])]
   \<and> option3 [primary_example, secondary_example] = do_all
     [print ''Option 3: By Position'',
      print ''const DISPLAY_VIDEO_CONFIG = {'',
      keyed_entry ''x0_y0'',
      keyed_entry ''x1920_y0'',
      print (''};'' @ [newline])]
   \<and> option4 [primary_example, secondary_example] = do_all
     [print ''Option 4: By Monitor Name (only if different)'',
      print ''const DISPLAY_VIDEO_CONFIG = {'',
      keyed_entry ''Monitor A'',
      keyed_entry ''Monitor B'',
      print (''};'' @ [newline])]"
proof -
  have ids: "extract_display_id (PyStr (device_id primary_example)) = ''GSM5BBB_4&1a2b3c&0&UID123''"
    "extract_display_id (PyStr (device_id secondary_example)) = ''DEL4321_5&9f8e7d&0&UID456''"
    by (simp_all add: primary_example_def secondary_example_def extract_display_id_str
        str_split_def)
  have names: "device_string primary_example = ''Monitor A''"
    "device_string secondary_example = ''Monitor B''"
    by (simp_all add: primary_example_def secondary_example_def)
  have h: "is_primary primary_example" "width primary_example = 1920"
    "height primary_example = 1080" "position_x primary_example = 0"
    "position_y primary_example = 0" "\<not> is_primary secondary_example"
    "width secondary_example = 1080" "height secondary_example = 1920"
    "position_x secondary_example = 1920" "position_y secondary_example = 0"
    by (simp_all add: primary_example_def secondary_example_def)
  show ?thesis
    using h two_display_report_sections [OF h] by (simp only: ids names simp_thms)
qed

section \<open>Enumeration and the top level\<close>

lemma enumerate_from_break:
  "EnumDisplayDevices os n = Inl e \<or> EnumDisplayDevices os n = Inr None \<Longrightarrow>
     enumerate_from os n displays = Some displays"
  by (subst enumerate_from.simps) auto

lemma enumerate_from_returns:
  assumes "EnumDisplayDevices os n = Inl e \<or> EnumDisplayDevices os n = Inr None"
  shows "k \<le> n \<Longrightarrow> \<exists>found. enumerate_from os k displays = Some found"
proof (induction "n - k" arbitrary: k displays)
  case 0
  then have "k = n" by simp
  then show ?case using assms enumerate_from_break by blast
next
  case (Suc d)
  then have k: "k < n" and d: "d = n - (k + 1)" and le: "k + 1 \<le> n" by simp_all
  have next_returns: "\<And>ds. \<exists>found. enumerate_from os (k + 1) ds = Some found"
    using Suc.hyps(1) [OF d le] by simp
  show ?case
  proof (cases "EnumDisplayDevices os k")
    case (Inl e')
    then show ?thesis using enumerate_from_break by blast
  next
    case (Inr r)
    show ?thesis
    proof (cases r)
      case None
      then show ?thesis using Inr enumerate_from_break by blast
    next
      case (Some dev)
      show ?thesis
        using Inr Some next_returns
        by (subst enumerate_from.simps) (auto split: sum.splits)
    qed
  qed
qed

lemma get_display_info_returns:
  "EnumDisplayDevices os n = Inl e \<or> EnumDisplayDevices os n = Inr None \<Longrightarrow>
     \<exists>found. get_display_info os = Some found"
  unfolding get_display_info_def by (rule enumerate_from_returns) simp_all

lemma main_with_empty:
  "main_with [] = \<lparr> printed = no_displays_text, raised = Some (SystemExit 1), report_calls = [] \<rparr>"
  by (simp add: main_with_def no_displays_text_def do_all_Cons do_all_Nil print_def)

lemma main_with_nonempty:
  "displays \<noteq> [] \<Longrightarrow>
     raised (main_with displays) = None \<and> report_calls (main_with displays) = [displays]"
  by (simp add: main_with_def Let_def)

text \<open>
  Claim C5. When the enumeration returns no display, \<^verbatim>\<open>main\<close> writes the detection line
  and the two lines of the no-displays error, leaves through \<^verbatim>\<open>sys.exit(1)\<close> and has made
  no call of \<^verbatim>\<open>print_display_report\<close>; the process ends with status 1.
\<close>

theorem main_no_displays:
  assumes "get_display_info os = Some []"
  shows "main os = Some \<lparr> printed = no_displays_text, raised = Some (SystemExit 1),
                         report_calls = [] \<rparr>
    \<and> script os = Some \<lparr> stdout = no_displays_text, exit_status = 1 \<rparr>
    \<and> no_displays_text =
        [newline] @ emoji_desktop @ ''  Detecting connected displays...'' @ [newline] @
        [newline] @ emoji_cross @ '' ERROR: No displays detected!'' @ [newline] @
        ''Make sure your monitors are connected and turned on.'' @ [newline]"
  using assms
  by (simp add: main_def script_def main_with_empty top_level_def no_displays_text_def)

theorem main_no_displays_witness:
  "get_display_info no_devices = Some []
   \<and> main no_devices = Some \<lparr> printed = no_displays_text, raised = Some (SystemExit 1),
                               report_calls = [] \<rparr>
   \<and> script no_devices = Some \<lparr> stdout = no_displays_text, exit_status = 1 \<rparr>"
proof -
  have h: "get_display_info no_devices = Some []"
    unfolding get_display_info_def
    by (rule enumerate_from_break [of _ _ "Exception ''EnumDisplayDevices failed''"])
      (simp add: no_devices_def)
  show ?thesis using h main_no_displays [OF h] by (intro conjI) simp_all
qed

lemma top_level_KeyboardInterrupt:
  "raised r = Some KeyboardInterrupt \<Longrightarrow>
     top_level r = \<lparr> stdout = printed r @ [newline, newline] @
                        ''Detection cancelled by user.'' @ [newline],
                      exit_status = 0 \<rparr>"
  by (simp add: top_level_def print_def)

lemma top_level_Exception:
  "raised r = Some (Exception msg) \<Longrightarrow>
     top_level r = \<lparr> stdout = printed r @ [newline] @ emoji_cross @ '' ERROR: '' @ msg @
                        [newline] @ [newline] @
                        ''If you see import errors, install pywin32:'' @ [newline] @
                        ''  pip install pywin32'' @ [newline],
                      exit_status = 1 \<rparr>"
  by (simp add: top_level_def print_def do_all_Cons do_all_Nil)

lemma main_raises_only_SystemExit:
  "main os = Some r \<Longrightarrow> raised r = None \<or> raised r = Some (SystemExit 1)"
  by (auto simp: main_def main_with_def Let_def)

text \<open>
  Claim C8 on the platform where Ctrl-C arrives during the first device call: the bare
  \<^verbatim>\<open>except:\<close> of \<^verbatim>\<open>get_display_info\<close> takes the \<^verbatim>\<open>KeyboardInterrupt\<close> for the end of
  the enumeration, so the script reports that no display was detected and ends with
  status 1; no cancellation notice is written.
\<close>

theorem interrupt_during_enumeration:
  "get_display_info interrupted_enumeration = Some []
   \<and> script interrupted_enumeration = Some \<lparr> stdout = no_displays_text, exit_status = 1 \<rparr>"
proof -
  have h: "get_display_info interrupted_enumeration = Some []"
    unfolding get_display_info_def
    by (rule enumerate_from_break [of _ _ KeyboardInterrupt])
      (simp add: interrupted_enumeration_def)
  then show ?thesis
    by (simp add: script_def main_def main_with_empty top_level_def)
qed

end
